theory Spec2Isabelle
  imports Complex_Main "HOL-Library.Word" "HOL-Library.Signed_Division"
begin

section \<open>The time source of PHP-X: \<open>src/native/timer.c\<close>\<close>

text \<open>
  The repository is one C function:
  \<^verbatim>\<open>
  long current_time_ms() {
      struct timespec ts;
      clock_gettime(CLOCK_REALTIME, &ts);
      return (ts.tv_sec * 1000) + (ts.tv_nsec / 1000000);
  }
  \<close>
  Its types come from \<open>time.h\<close>, which is the platform's: \<open>long\<close> and \<open>time_t\<close> are
  taken as 64-bit two's complement integers, as on an LP64 platform and as the
  specification's \<open>Integer64\<close> has it.
\<close>

subsection \<open>Data\<close>

type_synonym long = "64 word"
type_synonym time_t = "64 word"
type_synonym cint = "32 word"

record timespec =
  tv_sec :: time_t
  tv_nsec :: long

datatype clockid = CLOCK_REALTIME | CLOCK_MONOTONIC

subsection \<open>C arithmetic on \<open>long\<close>\<close>

text \<open>
  \<open>*\<close> and \<open>+\<close> on \<open>64 word\<close> wrap around. The C standard leaves a signed overflow
  undefined; the model takes the two's complement result that the usual compilation of
  this function produces, and \<open>no_overflow\<close> below says when the standard defines the
  value.

  C's \<open>/\<close> truncates the quotient toward zero: \<open>sdiv\<close> on \<open>int\<close>, read through \<open>sint\<close>.
  The divisor in the source is the constant \<open>1000000\<close>, so neither a division by zero
  nor \<open>LONG_MIN / -1\<close> can occur.
\<close>

definition div_long :: "long \<Rightarrow> long \<Rightarrow> long" where
  "div_long a b = word_of_int (sint a sdiv sint b)"

subsection \<open>The function\<close>

text \<open>
  \<open>clock_gettime\<close> is the platform's primitive, so it is a parameter of the model: called
  with a clock id, the contents of the caller's buffer and the state of the world, it
  gives its return code, the contents of the buffer after the call, and the world after
  the call. \<open>ts0\<close> is what the uninitialised local \<open>ts\<close> holds when the function is
  entered. The return code is bound and never looked at, as in the source; the buffer
  is local and is gone when the function returns.
\<close>

type_synonym 'w clock_primitive = "clockid \<Rightarrow> timespec \<Rightarrow> 'w \<Rightarrow> (cint \<times> timespec) \<times> 'w"

definition current_time_ms :: "'w clock_primitive \<Rightarrow> timespec \<Rightarrow> 'w \<Rightarrow> long \<times> 'w" where
  "current_time_ms clock_gettime ts0 w =
     (case clock_gettime CLOCK_REALTIME ts0 w of
        ((rc, ts), w') \<Rightarrow> (tv_sec ts * 1000 + div_long (tv_nsec ts) 1000000, w'))"

subsection \<open>A POSIX clock\<close>

text \<open>
  One instance of the primitive, after POSIX: a clock either runs and shows a reading,
  or is unavailable and reports an error number. A successful call returns 0 and stores
  the reading; a failing call returns -1, sets \<open>errno\<close> and leaves the buffer as it was.
\<close>

datatype clock_state = Running timespec | Unavailable cint

record world =
  realtime :: clock_state
  monotonic :: clock_state
  errno :: cint

definition posix_clock_gettime :: "world clock_primitive" where
  "posix_clock_gettime clk buf w =
     (case (case clk of CLOCK_REALTIME \<Rightarrow> realtime w | CLOCK_MONOTONIC \<Rightarrow> monotonic w) of
        Running ts \<Rightarrow> ((0, ts), w)
      | Unavailable e \<Rightarrow> ((- 1, buf), w\<lparr>errno := e\<rparr>))"

subsection \<open>A clock read that may not return\<close>

text \<open>
  For termination the one place where control leaves the function has to be able to keep
  it: here the primitive gives \<open>None\<close> when the call never returns to its caller, and the
  function gives \<open>None\<close> when it never returns to its own. The body is the same: the call
  with \<open>CLOCK_REALTIME\<close>, the return code unused, then the arithmetic; it has no loop
  and does not call itself.
\<close>

type_synonym 'w blocking_primitive =
  "clockid \<Rightarrow> timespec \<Rightarrow> 'w \<Rightarrow> ((cint \<times> timespec) \<times> 'w) option"

definition current_time_ms_run ::
  "'w blocking_primitive \<Rightarrow> timespec \<Rightarrow> 'w \<Rightarrow> (long \<times> 'w) option" where
  "current_time_ms_run clock_gettime ts0 w =
     (case clock_gettime CLOCK_REALTIME ts0 w of
        None \<Rightarrow> None
      | Some ((rc, ts), w') \<Rightarrow>
          Some (tv_sec ts * 1000 + div_long (tv_nsec ts) 1000000, w'))"


subsection \<open>Notions of the specification\<close>

text \<open>The range of a signed 64-bit integer.\<close>

definition long_range :: "int \<Rightarrow> bool" where
  "long_range k \<longleftrightarrow> - (2 ^ 63) \<le> k \<and> k < 2 ^ 63"

text \<open>
  The value of the source's expression over the mathematical integers, and the
  condition under which both of its arithmetic steps stay inside \<open>long\<close>.
\<close>

definition millis_exact :: "timespec \<Rightarrow> int" where
  "millis_exact ts = sint (tv_sec ts) * 1000 + sint (tv_nsec ts) sdiv 1000000"

definition no_overflow :: "timespec \<Rightarrow> bool" where
  "no_overflow ts \<longleftrightarrow>
     long_range (sint (tv_sec ts) * 1000) \<and> long_range (millis_exact ts)"

text \<open>
  The specification's words, \<open>t = floor(seconds_since_epoch * 1000)\<close>, with the seconds
  since the epoch the real number \<open>sec + ns / 10\<^sup>9\<close>.
\<close>

definition now_millis_spec :: "timespec \<Rightarrow> int" where
  "now_millis_spec ts =
     \<lfloor>(real_of_int (sint (tv_sec ts)) + real_of_int (sint (tv_nsec ts)) / 1000000000) * 1000\<rfloor>"

text \<open>A normalised reading has \<open>0 \<le> ns < 10\<^sup>9\<close>.\<close>

definition valid_nsec :: "timespec \<Rightarrow> bool" where
  "valid_nsec ts \<longleftrightarrow> 0 \<le> sint (tv_nsec ts) \<and> sint (tv_nsec ts) < 1000000000"

text \<open>
  The seconds for which \<open>sec * 1000 + 999\<close> is a signed 64-bit integer:
  \<open>9223372036854774 * 1000 + 999 < 2\<^sup>6\<^sup>3\<close> and \<open>- 2\<^sup>6\<^sup>3 \<le> - 9223372036854775 * 1000\<close>.
\<close>

definition sec_in_range :: "timespec \<Rightarrow> bool" where
  "sec_in_range ts \<longleftrightarrow>
     - 9223372036854775 \<le> sint (tv_sec ts) \<and> sint (tv_sec ts) \<le> 9223372036854774"

text \<open>The lexicographic order on readings: the clock did not go backward.\<close>

definition timespec_le :: "timespec \<Rightarrow> timespec \<Rightarrow> bool" where
  "timespec_le a b \<longleftrightarrow>
     sint (tv_sec a) < sint (tv_sec b) \<or>
     (tv_sec a = tv_sec b \<and> sint (tv_nsec a) \<le> sint (tv_nsec b))"

section \<open>Arithmetic of the conversion\<close>

lemma sint_long_of_int: "long_range k \<Longrightarrow> sint (word_of_int k :: long) = k"
  by (simp add: long_range_def sint_sbintrunc' signed_take_bit_int_eq_self)

lemma sdiv_nonneg: "0 \<le> k \<Longrightarrow> k sdiv 1000000 = k div (1000000 :: int)"
  by (simp add: signed_divide_int_def sgn_if)

lemma current_time_ms_fst:
  "clock_gettime CLOCK_REALTIME ts0 w = ((rc, ts), w') \<Longrightarrow>
   fst (current_time_ms clock_gettime ts0 w) = tv_sec ts * 1000 + div_long (tv_nsec ts) 1000000"
  by (simp add: current_time_ms_def)

lemma millis_word: "tv_sec ts * 1000 + div_long (tv_nsec ts) 1000000 = word_of_int (millis_exact ts)"
  by (simp add: div_long_def millis_exact_def)

lemma nsec_ms_eq: "valid_nsec ts \<Longrightarrow> sint (tv_nsec ts) sdiv 1000000 = sint (tv_nsec ts) div 1000000"
  by (simp add: valid_nsec_def sdiv_nonneg)

lemma nsec_ms_bounds:
  assumes "valid_nsec ts"
  shows "0 \<le> sint (tv_nsec ts) sdiv 1000000 \<and> sint (tv_nsec ts) sdiv 1000000 \<le> 999"
proof -
  let ?n = "sint (tv_nsec ts)"
  have lo: "0 \<le> ?n" and hi: "?n \<le> 999999999"
    using assms by (simp_all add: valid_nsec_def)
  have "?n div 1000000 \<le> 999999999 div 1000000"
    using hi by (rule zdiv_mono1) simp
  moreover have "0 \<le> ?n div 1000000"
    using lo by (simp add: pos_imp_zdiv_nonneg_iff)
  ultimately show ?thesis
    by (simp add: nsec_ms_eq [OF assms])
qed

lemma in_range_no_overflow:
  assumes "valid_nsec ts" and "sec_in_range ts"
  shows "no_overflow ts"
  using assms(2) nsec_ms_bounds [OF assms(1)]
  by (simp add: no_overflow_def long_range_def sec_in_range_def millis_exact_def)

lemma sint_millis:
  assumes "clock_gettime CLOCK_REALTIME ts0 w = ((rc, ts), w')" and "no_overflow ts"
  shows "sint (fst (current_time_ms clock_gettime ts0 w)) = millis_exact ts"
  using assms sint_long_of_int [of "millis_exact ts"]
  by (simp add: current_time_ms_fst millis_word no_overflow_def)

lemma floor_millis:
  assumes "valid_nsec ts"
  shows "now_millis_spec ts = millis_exact ts"
proof -
  let ?s = "sint (tv_sec ts)" and ?n = "sint (tv_nsec ts)"
  have "(real_of_int ?s + real_of_int ?n / 1000000000) * 1000
        = real_of_int (?s * 1000) + real_of_int ?n / real_of_int 1000000"
    by (simp add: algebra_simps)
  then have "now_millis_spec ts = ?s * 1000 + \<lfloor>real_of_int ?n / real_of_int 1000000\<rfloor>"
    unfolding now_millis_spec_def by (simp only: int_add_floor)
  also have "\<dots> = ?s * 1000 + ?n div 1000000"
    by (simp only: floor_divide_of_int_eq)
  finally show ?thesis
    by (simp add: millis_exact_def nsec_ms_eq [OF assms])
qed

lemma millis_div_1000:
  assumes "0 \<le> (m::int)" and "m \<le> 999"
  shows "(s * 1000 + m) div 1000 = s"
proof -
  have "m div 1000 = 0"
    using assms by simp
  then show ?thesis
    by simp
qed

text \<open>With a primitive that always returns, the two models of the function agree.\<close>

lemma current_time_ms_run_total:
  "current_time_ms_run (\<lambda>clk buf w. Some (clock_gettime clk buf w)) ts0 w
     = Some (current_time_ms clock_gettime ts0 w)"
  by (simp add: current_time_ms_run_def current_time_ms_def split: prod.split)

section \<open>The claims\<close>

text \<open>
  In the theorems below \<open>clock_gettime\<close> is any behaviour of the primitive, \<open>ts\<close> is the
  reading it leaves in the buffer, and \<open>rc\<close> is its return code. The closed instances run
  the function on the POSIX clock of the previous section.
\<close>

subsection \<open>The value returned\<close>

text \<open>
  C1, as amended. For every clock reading with \<open>0 \<le> ns < 10\<^sup>9\<close> the function returns
  \<open>sec * 1000 + ns / 1000000\<close> computed in \<open>long\<close>, with the division truncating toward
  zero; this is the 64-bit representation of \<open>floor(seconds_since_epoch * 1000)\<close>, and it
  is that integer exactly whenever \<open>- 9223372036854775 \<le> sec \<le> 9223372036854774\<close>.
\<close>

theorem current_time_ms_floor:
  assumes "clock_gettime CLOCK_REALTIME ts0 w = ((rc, ts), w')" and "valid_nsec ts"
  shows "fst (current_time_ms clock_gettime ts0 w)
           = tv_sec ts * 1000 + div_long (tv_nsec ts) 1000000
         \<and> fst (current_time_ms clock_gettime ts0 w) = word_of_int (now_millis_spec ts)
         \<and> (sec_in_range ts \<longrightarrow>
              sint (fst (current_time_ms clock_gettime ts0 w))
                = sint (tv_sec ts) * 1000 + sint (tv_nsec ts) sdiv 1000000
              \<and> sint (fst (current_time_ms clock_gettime ts0 w)) = now_millis_spec ts)"
proof -
  have a: "fst (current_time_ms clock_gettime ts0 w)
             = tv_sec ts * 1000 + div_long (tv_nsec ts) 1000000"
    using assms(1) by (rule current_time_ms_fst)
  have b: "fst (current_time_ms clock_gettime ts0 w) = word_of_int (now_millis_spec ts)"
    by (simp only: a millis_word floor_millis [OF assms(2)])
  have c: "sint (fst (current_time_ms clock_gettime ts0 w)) = millis_exact ts"
    if "sec_in_range ts"
    using assms(1) in_range_no_overflow [OF assms(2) that] by (rule sint_millis)
  show ?thesis
    using a b c by (simp add: floor_millis [OF assms(2)] millis_exact_def)
qed

text \<open>
  An instance at \<open>sec = 1700000000\<close>, \<open>ns = 999999999\<close>.
\<close>

theorem current_time_ms_floor_witness:
  "valid_nsec \<lparr>tv_sec = 1700000000, tv_nsec = 999999999\<rparr>
   \<and> sec_in_range \<lparr>tv_sec = 1700000000, tv_nsec = 999999999\<rparr>
   \<and> sint (fst (current_time_ms posix_clock_gettime \<lparr>tv_sec = 0, tv_nsec = 0\<rparr>
        \<lparr>realtime = Running \<lparr>tv_sec = 1700000000, tv_nsec = 999999999\<rparr>,
         monotonic = Unavailable 22, errno = 0\<rparr>))
      = now_millis_spec \<lparr>tv_sec = 1700000000, tv_nsec = 999999999\<rparr>
   \<and> now_millis_spec \<lparr>tv_sec = 1700000000, tv_nsec = 999999999\<rparr> = 1700000000999"
proof -
  let ?ts = "\<lparr>tv_sec = 1700000000, tv_nsec = 999999999\<rparr>"
  let ?w = "\<lparr>realtime = Running ?ts, monotonic = Unavailable 22, errno = 0\<rparr>"
  have h: "posix_clock_gettime CLOCK_REALTIME \<lparr>tv_sec = 0, tv_nsec = 0\<rparr> ?w = ((0, ?ts), ?w)"
    by (simp add: posix_clock_gettime_def)
  have v: "valid_nsec ?ts"
    by (simp add: valid_nsec_def)
  have r: "sec_in_range ?ts"
    by (simp add: sec_in_range_def)
  have n: "now_millis_spec ?ts = 1700000000999"
    by (simp add: now_millis_spec_def)
  show ?thesis
    using current_time_ms_floor [where clock_gettime = posix_clock_gettime, OF h v] v r n
    by (simp add: div_long_def signed_divide_int_def)
qed

text \<open>
  C1 as written asks for the floor at every reading. At \<open>sec = 2\<^sup>6\<^sup>2\<close>, \<open>ns = 0\<close> the
  floor is \<open>4611686018427387904000\<close>, which no \<open>long\<close> holds; the product wraps to 0.
\<close>

theorem current_time_ms_floor_counterexample:
  "valid_nsec \<lparr>tv_sec = 4611686018427387904, tv_nsec = 0\<rparr>
   \<and> now_millis_spec \<lparr>tv_sec = 4611686018427387904, tv_nsec = 0\<rparr> = 4611686018427387904000
   \<and> sint (fst (current_time_ms posix_clock_gettime \<lparr>tv_sec = 0, tv_nsec = 0\<rparr>
        \<lparr>realtime = Running \<lparr>tv_sec = 4611686018427387904, tv_nsec = 0\<rparr>,
         monotonic = Unavailable 22, errno = 0\<rparr>)) = 0
   \<and> sint (fst (current_time_ms posix_clock_gettime \<lparr>tv_sec = 0, tv_nsec = 0\<rparr>
        \<lparr>realtime = Running \<lparr>tv_sec = 4611686018427387904, tv_nsec = 0\<rparr>,
         monotonic = Unavailable 22, errno = 0\<rparr>))
       \<noteq> now_millis_spec \<lparr>tv_sec = 4611686018427387904, tv_nsec = 0\<rparr>"
  by (simp add: valid_nsec_def now_millis_spec_def current_time_ms_def posix_clock_gettime_def
      div_long_def)

text \<open>
  C2. The function surfaces no error: the return code of the clock read is never
  inspected, and whatever it is (a failure included) the function returns the value
  computed from what the call left in the buffer.
\<close>

theorem current_time_ms_unchecked:
  assumes "clock_gettime CLOCK_REALTIME ts0 w = ((rc, ts), w')"
  shows "current_time_ms clock_gettime ts0 w
           = (tv_sec ts * 1000 + div_long (tv_nsec ts) 1000000, w')"
  using assms by (simp add: current_time_ms_def)

text \<open>
  An instance with a failing clock: the call returns -1 and leaves the uninitialised
  buffer \<open>(7, 123456789)\<close>, and the function returns 7123.
\<close>

theorem current_time_ms_unchecked_witness:
  "posix_clock_gettime CLOCK_REALTIME \<lparr>tv_sec = 7, tv_nsec = 123456789\<rparr>
     \<lparr>realtime = Unavailable 22, monotonic = Unavailable 22, errno = 0\<rparr>
   = ((- 1, \<lparr>tv_sec = 7, tv_nsec = 123456789\<rparr>),
      \<lparr>realtime = Unavailable 22, monotonic = Unavailable 22, errno = 22\<rparr>)
   \<and> current_time_ms posix_clock_gettime \<lparr>tv_sec = 7, tv_nsec = 123456789\<rparr>
       \<lparr>realtime = Unavailable 22, monotonic = Unavailable 22, errno = 0\<rparr>
     = (7123, \<lparr>realtime = Unavailable 22, monotonic = Unavailable 22, errno = 22\<rparr>)"
proof -
  let ?g = "\<lparr>tv_sec = 7, tv_nsec = 123456789\<rparr>"
  have h: "posix_clock_gettime CLOCK_REALTIME ?g
             \<lparr>realtime = Unavailable 22, monotonic = Unavailable 22, errno = 0\<rparr>
           = ((- 1, ?g), \<lparr>realtime = Unavailable 22, monotonic = Unavailable 22, errno = 22\<rparr>)"
    by (simp add: posix_clock_gettime_def)
  show ?thesis
    using h current_time_ms_unchecked [where clock_gettime = posix_clock_gettime, OF h]
    by (simp add: div_long_def signed_divide_int_def)
qed

text \<open>
  C3, as amended. For every clock reading with \<open>0 \<le> ns < 10\<^sup>9\<close> and
  \<open>- 9223372036854775 \<le> sec \<le> 9223372036854774\<close>, the computation
  \<open>sec * 1000 + ns / 1000000\<close> stays inside a signed 64-bit integer at both of its steps,
  and the value returned is its result.
\<close>

theorem current_time_ms_fits:
  assumes "clock_gettime CLOCK_REALTIME ts0 w = ((rc, ts), w')"
    and "valid_nsec ts" and "sec_in_range ts"
  shows "no_overflow ts
         \<and> sint (fst (current_time_ms clock_gettime ts0 w)) = millis_exact ts"
proof -
  have "no_overflow ts"
    using assms(2,3) by (rule in_range_no_overflow)
  then show ?thesis
    using sint_millis [where clock_gettime = clock_gettime, OF assms(1)] by simp
qed

text \<open>
  An instance at the largest such second, \<open>sec = 9223372036854774\<close>, \<open>ns = 999999999\<close>.
\<close>

theorem current_time_ms_fits_witness:
  "valid_nsec \<lparr>tv_sec = 9223372036854774, tv_nsec = 999999999\<rparr>
   \<and> sec_in_range \<lparr>tv_sec = 9223372036854774, tv_nsec = 999999999\<rparr>
   \<and> no_overflow \<lparr>tv_sec = 9223372036854774, tv_nsec = 999999999\<rparr>
   \<and> sint (fst (current_time_ms posix_clock_gettime \<lparr>tv_sec = 0, tv_nsec = 0\<rparr>
        \<lparr>realtime = Running \<lparr>tv_sec = 9223372036854774, tv_nsec = 999999999\<rparr>,
         monotonic = Unavailable 22, errno = 0\<rparr>)) = 9223372036854774999"
proof -
  let ?ts = "\<lparr>tv_sec = 9223372036854774, tv_nsec = 999999999\<rparr>"
  let ?w = "\<lparr>realtime = Running ?ts, monotonic = Unavailable 22, errno = 0\<rparr>"
  have h: "posix_clock_gettime CLOCK_REALTIME \<lparr>tv_sec = 0, tv_nsec = 0\<rparr> ?w = ((0, ?ts), ?w)"
    by (simp add: posix_clock_gettime_def)
  have v: "valid_nsec ?ts"
    by (simp add: valid_nsec_def)
  have r: "sec_in_range ?ts"
    by (simp add: sec_in_range_def)
  have m: "millis_exact ?ts = 9223372036854774999"
    by (simp add: millis_exact_def signed_divide_int_def)
  show ?thesis
    using current_time_ms_fits [where clock_gettime = posix_clock_gettime, OF h v r] v r m
    by simp
qed

text \<open>
  C3 as written speaks of every clock reading. At \<open>sec = 9223372036854776\<close>, \<open>ns = 0\<close>
  the product is \<open>9223372036854776000 > 2\<^sup>6\<^sup>3 - 1\<close>: it overflows, and the wrapped
  result is negative.
\<close>

theorem current_time_ms_fits_counterexample:
  "millis_exact \<lparr>tv_sec = 9223372036854776, tv_nsec = 0\<rparr> = 9223372036854776000
   \<and> \<not> long_range (millis_exact \<lparr>tv_sec = 9223372036854776, tv_nsec = 0\<rparr>)
   \<and> \<not> no_overflow \<lparr>tv_sec = 9223372036854776, tv_nsec = 0\<rparr>
   \<and> sint (fst (current_time_ms posix_clock_gettime \<lparr>tv_sec = 0, tv_nsec = 0\<rparr>
        \<lparr>realtime = Running \<lparr>tv_sec = 9223372036854776, tv_nsec = 0\<rparr>,
         monotonic = Unavailable 22, errno = 0\<rparr>)) = - 9223372036854775616"
  by (simp add: millis_exact_def long_range_def no_overflow_def current_time_ms_def
      posix_clock_gettime_def div_long_def)

text \<open>
  C4. If the host clock reads exactly 1,700,000,000 seconds and 500,000,000 nanoseconds
  since the epoch, the function returns exactly 1700000000500.
\<close>

theorem current_time_ms_scenario:
  assumes "clock_gettime CLOCK_REALTIME ts0 w =
             ((rc, \<lparr>tv_sec = 1700000000, tv_nsec = 500000000\<rparr>), w')"
  shows "fst (current_time_ms clock_gettime ts0 w) = 1700000000500
         \<and> sint (fst (current_time_ms clock_gettime ts0 w)) = 1700000000500"
  using assms by (simp add: current_time_ms_def div_long_def signed_divide_int_def)

text \<open>
  The scenario on the POSIX clock.
\<close>

theorem current_time_ms_scenario_witness:
  "posix_clock_gettime CLOCK_REALTIME \<lparr>tv_sec = 0, tv_nsec = 0\<rparr>
     \<lparr>realtime = Running \<lparr>tv_sec = 1700000000, tv_nsec = 500000000\<rparr>,
      monotonic = Unavailable 22, errno = 0\<rparr>
   = ((0, \<lparr>tv_sec = 1700000000, tv_nsec = 500000000\<rparr>),
      \<lparr>realtime = Running \<lparr>tv_sec = 1700000000, tv_nsec = 500000000\<rparr>,
       monotonic = Unavailable 22, errno = 0\<rparr>)
   \<and> fst (current_time_ms posix_clock_gettime \<lparr>tv_sec = 0, tv_nsec = 0\<rparr>
       \<lparr>realtime = Running \<lparr>tv_sec = 1700000000, tv_nsec = 500000000\<rparr>,
        monotonic = Unavailable 22, errno = 0\<rparr>) = 1700000000500"
proof -
  have h: "posix_clock_gettime CLOCK_REALTIME \<lparr>tv_sec = 0, tv_nsec = 0\<rparr>
     \<lparr>realtime = Running \<lparr>tv_sec = 1700000000, tv_nsec = 500000000\<rparr>,
      monotonic = Unavailable 22, errno = 0\<rparr>
   = ((0, \<lparr>tv_sec = 1700000000, tv_nsec = 500000000\<rparr>),
      \<lparr>realtime = Running \<lparr>tv_sec = 1700000000, tv_nsec = 500000000\<rparr>,
       monotonic = Unavailable 22, errno = 0\<rparr>)"
    by (simp add: posix_clock_gettime_def)
  show ?thesis
    using h current_time_ms_scenario [where clock_gettime = posix_clock_gettime, OF h] by simp
qed

text \<open>
  C5, as amended. If the nanoseconds component is 999,999,999, the nanoseconds term
  \<open>ns / 1000000\<close> truncates to 999, not 1000, and the function returns
  \<open>seconds * 1000 + 999\<close> computed in \<open>long\<close>; this is the integer \<open>seconds * 1000 + 999\<close>
  exactly whenever \<open>- 9223372036854775 \<le> seconds \<le> 9223372036854774\<close>.
\<close>

theorem current_time_ms_truncates:
  assumes "clock_gettime CLOCK_REALTIME ts0 w = ((rc, ts), w')"
    and "tv_nsec ts = 999999999"
  shows "div_long (tv_nsec ts) 1000000 = 999
         \<and> div_long (tv_nsec ts) 1000000 \<noteq> 1000
         \<and> fst (current_time_ms clock_gettime ts0 w) = tv_sec ts * 1000 + 999
         \<and> (sec_in_range ts \<longrightarrow>
              sint (fst (current_time_ms clock_gettime ts0 w)) = sint (tv_sec ts) * 1000 + 999)"
proof -
  have d: "div_long (tv_nsec ts) 1000000 = 999"
    by (simp add: assms(2) div_long_def signed_divide_int_def)
  have v: "valid_nsec ts"
    by (simp add: assms(2) valid_nsec_def)
  have e: "millis_exact ts = sint (tv_sec ts) * 1000 + 999"
    by (simp add: assms(2) millis_exact_def signed_divide_int_def)
  have s: "sint (fst (current_time_ms clock_gettime ts0 w)) = sint (tv_sec ts) * 1000 + 999"
    if "sec_in_range ts"
    using sint_millis [where clock_gettime = clock_gettime, OF assms(1) in_range_no_overflow [OF v that]] e
    by simp
  show ?thesis
    using d s current_time_ms_fst [where clock_gettime = clock_gettime, OF assms(1)] by simp
qed

text \<open>
  An instance at \<open>sec = 41\<close>.
\<close>

theorem current_time_ms_truncates_witness:
  "sec_in_range \<lparr>tv_sec = 41, tv_nsec = 999999999\<rparr>
   \<and> fst (current_time_ms posix_clock_gettime \<lparr>tv_sec = 0, tv_nsec = 0\<rparr>
        \<lparr>realtime = Running \<lparr>tv_sec = 41, tv_nsec = 999999999\<rparr>,
         monotonic = Unavailable 22, errno = 0\<rparr>) = 41999
   \<and> sint (fst (current_time_ms posix_clock_gettime \<lparr>tv_sec = 0, tv_nsec = 0\<rparr>
        \<lparr>realtime = Running \<lparr>tv_sec = 41, tv_nsec = 999999999\<rparr>,
         monotonic = Unavailable 22, errno = 0\<rparr>)) = 41999"
proof -
  let ?ts = "\<lparr>tv_sec = 41, tv_nsec = 999999999\<rparr>"
  let ?w = "\<lparr>realtime = Running ?ts, monotonic = Unavailable 22, errno = 0\<rparr>"
  have h: "posix_clock_gettime CLOCK_REALTIME \<lparr>tv_sec = 0, tv_nsec = 0\<rparr> ?w = ((0, ?ts), ?w)"
    by (simp add: posix_clock_gettime_def)
  have n: "tv_nsec ?ts = 999999999"
    by simp
  have r: "sec_in_range ?ts"
    by (simp add: sec_in_range_def)
  show ?thesis
    using current_time_ms_truncates [where clock_gettime = posix_clock_gettime, OF h n] r
    by simp
qed

text \<open>
  C5 as written has the integer \<open>seconds * 1000 + 999\<close> returned for every second. At
  \<open>sec = 2\<^sup>6\<^sup>2\<close>, \<open>ns = 999999999\<close> that integer is \<open>4611686018427387904999\<close>, and the
  function returns 999.
\<close>

theorem current_time_ms_truncates_counterexample:
  "tv_nsec \<lparr>tv_sec = 4611686018427387904, tv_nsec = 999999999\<rparr> = 999999999
   \<and> sint (tv_sec \<lparr>tv_sec = 4611686018427387904, tv_nsec = 999999999\<rparr>) * 1000 + 999
       = 4611686018427387904999
   \<and> sint (fst (current_time_ms posix_clock_gettime \<lparr>tv_sec = 0, tv_nsec = 0\<rparr>
        \<lparr>realtime = Running \<lparr>tv_sec = 4611686018427387904, tv_nsec = 999999999\<rparr>,
         monotonic = Unavailable 22, errno = 0\<rparr>)) = 999
   \<and> sint (fst (current_time_ms posix_clock_gettime \<lparr>tv_sec = 0, tv_nsec = 0\<rparr>
        \<lparr>realtime = Running \<lparr>tv_sec = 4611686018427387904, tv_nsec = 999999999\<rparr>,
         monotonic = Unavailable 22, errno = 0\<rparr>))
       \<noteq> sint (tv_sec \<lparr>tv_sec = 4611686018427387904, tv_nsec = 999999999\<rparr>) * 1000 + 999"
  by (simp add: current_time_ms_def posix_clock_gettime_def div_long_def signed_divide_int_def)

subsection \<open>Relations between readings and results\<close>

text \<open>
  C6, as amended. For every clock reading with \<open>0 \<le> sec \<le> 9223372036854774\<close> and
  \<open>0 \<le> ns < 10\<^sup>9\<close>, the returned value divided by 1000 is \<open>sec\<close> exactly, both as an
  integer quotient and with C's division on \<open>long\<close>.
\<close>

theorem current_time_ms_seconds:
  assumes "clock_gettime CLOCK_REALTIME ts0 w = ((rc, ts), w')"
    and "valid_nsec ts"
    and "0 \<le> sint (tv_sec ts)" and "sint (tv_sec ts) \<le> 9223372036854774"
  shows "sint (fst (current_time_ms clock_gettime ts0 w)) div 1000 = sint (tv_sec ts)
         \<and> div_long (fst (current_time_ms clock_gettime ts0 w)) 1000 = tv_sec ts"
proof -
  let ?t = "fst (current_time_ms clock_gettime ts0 w)"
  have r: "sec_in_range ts"
    using assms(3,4) by (simp add: sec_in_range_def)
  have t: "sint ?t = sint (tv_sec ts) * 1000 + sint (tv_nsec ts) sdiv 1000000"
    using sint_millis [where clock_gettime = clock_gettime, OF assms(1) in_range_no_overflow [OF assms(2) r]]
    by (simp add: millis_exact_def)
  have b: "0 \<le> sint (tv_nsec ts) sdiv 1000000 \<and> sint (tv_nsec ts) sdiv 1000000 \<le> 999"
    using assms(2) by (rule nsec_ms_bounds)
  have q: "sint ?t div 1000 = sint (tv_sec ts)"
    using b by (simp only: t millis_div_1000)
  have nn: "0 \<le> sint ?t"
    using assms(3) b by (simp add: t)
  have "sint ?t sdiv 1000 = sint ?t div 1000"
    using nn by (simp add: signed_divide_int_def sgn_if)
  then have "div_long ?t 1000 = word_of_int (sint (tv_sec ts))"
    by (simp add: div_long_def q)
  then show ?thesis
    using q by simp
qed

text \<open>
  An instance at \<open>sec = 1700000000\<close>, \<open>ns = 500000000\<close>.
\<close>

theorem current_time_ms_seconds_witness:
  "valid_nsec \<lparr>tv_sec = 1700000000, tv_nsec = 500000000\<rparr>
   \<and> sint (fst (current_time_ms posix_clock_gettime \<lparr>tv_sec = 0, tv_nsec = 0\<rparr>
        \<lparr>realtime = Running \<lparr>tv_sec = 1700000000, tv_nsec = 500000000\<rparr>,
         monotonic = Unavailable 22, errno = 0\<rparr>)) div 1000 = 1700000000
   \<and> div_long (fst (current_time_ms posix_clock_gettime \<lparr>tv_sec = 0, tv_nsec = 0\<rparr>
        \<lparr>realtime = Running \<lparr>tv_sec = 1700000000, tv_nsec = 500000000\<rparr>,
         monotonic = Unavailable 22, errno = 0\<rparr>)) 1000 = 1700000000"
proof -
  let ?ts = "\<lparr>tv_sec = 1700000000, tv_nsec = 500000000\<rparr>"
  let ?w = "\<lparr>realtime = Running ?ts, monotonic = Unavailable 22, errno = 0\<rparr>"
  have h: "posix_clock_gettime CLOCK_REALTIME \<lparr>tv_sec = 0, tv_nsec = 0\<rparr> ?w = ((0, ?ts), ?w)"
    by (simp add: posix_clock_gettime_def)
  have v: "valid_nsec ?ts"
    by (simp add: valid_nsec_def)
  have lo: "0 \<le> sint (tv_sec ?ts)"
    by simp
  have hi: "sint (tv_sec ?ts) \<le> 9223372036854774"
    by simp
  show ?thesis
    using current_time_ms_seconds [where clock_gettime = posix_clock_gettime, OF h v lo hi] v
    by simp
qed

text \<open>
  C6 as written has no upper bound on \<open>sec\<close>. At \<open>sec = 9223372036854776\<close>, \<open>ns = 0\<close>
  the returned value is negative and its quotient by 1000 is not \<open>sec\<close>.
\<close>

theorem current_time_ms_seconds_counterexample:
  "valid_nsec \<lparr>tv_sec = 9223372036854776, tv_nsec = 0\<rparr>
   \<and> 0 \<le> sint (tv_sec \<lparr>tv_sec = 9223372036854776, tv_nsec = 0\<rparr>)
   \<and> sint (fst (current_time_ms posix_clock_gettime \<lparr>tv_sec = 0, tv_nsec = 0\<rparr>
        \<lparr>realtime = Running \<lparr>tv_sec = 9223372036854776, tv_nsec = 0\<rparr>,
         monotonic = Unavailable 22, errno = 0\<rparr>)) = - 9223372036854775616
   \<and> sint (fst (current_time_ms posix_clock_gettime \<lparr>tv_sec = 0, tv_nsec = 0\<rparr>
        \<lparr>realtime = Running \<lparr>tv_sec = 9223372036854776, tv_nsec = 0\<rparr>,
         monotonic = Unavailable 22, errno = 0\<rparr>)) div 1000
       \<noteq> sint (tv_sec \<lparr>tv_sec = 9223372036854776, tv_nsec = 0\<rparr>)
   \<and> div_long (fst (current_time_ms posix_clock_gettime \<lparr>tv_sec = 0, tv_nsec = 0\<rparr>
        \<lparr>realtime = Running \<lparr>tv_sec = 9223372036854776, tv_nsec = 0\<rparr>,
         monotonic = Unavailable 22, errno = 0\<rparr>)) 1000
       \<noteq> tv_sec \<lparr>tv_sec = 9223372036854776, tv_nsec = 0\<rparr>"
  by (simp add: valid_nsec_def current_time_ms_def posix_clock_gettime_def div_long_def
      signed_divide_int_def)

text \<open>
  C7, as amended. For any two clock readings with nanoseconds in \<open>[0, 10\<^sup>9)\<close> and
  seconds in \<open>[- 9223372036854775, 9223372036854774]\<close>, if the second is not before the
  first in lexicographic order then the second timestamp is not less than the first.
\<close>

theorem current_time_ms_monotone:
  assumes "clock_gettime CLOCK_REALTIME ts0 w1 = ((rc1, ts1), w1')"
    and "clock_gettime CLOCK_REALTIME ts0' w2 = ((rc2, ts2), w2')"
    and "valid_nsec ts1" and "valid_nsec ts2"
    and "sec_in_range ts1" and "sec_in_range ts2"
    and "timespec_le ts1 ts2"
  shows "sint (fst (current_time_ms clock_gettime ts0 w1))
           \<le> sint (fst (current_time_ms clock_gettime ts0' w2))"
proof -
  have t1: "sint (fst (current_time_ms clock_gettime ts0 w1)) = millis_exact ts1"
    using sint_millis [where clock_gettime = clock_gettime, OF assms(1) in_range_no_overflow [OF assms(3,5)]] .
  have t2: "sint (fst (current_time_ms clock_gettime ts0' w2)) = millis_exact ts2"
    using sint_millis [where clock_gettime = clock_gettime, OF assms(2) in_range_no_overflow [OF assms(4,6)]] .
  have b1: "0 \<le> sint (tv_nsec ts1) sdiv 1000000 \<and> sint (tv_nsec ts1) sdiv 1000000 \<le> 999"
    using assms(3) by (rule nsec_ms_bounds)
  have b2: "0 \<le> sint (tv_nsec ts2) sdiv 1000000 \<and> sint (tv_nsec ts2) sdiv 1000000 \<le> 999"
    using assms(4) by (rule nsec_ms_bounds)
  from assms(7) consider
      (earlier) "sint (tv_sec ts1) < sint (tv_sec ts2)"
    | (same) "tv_sec ts1 = tv_sec ts2" "sint (tv_nsec ts1) \<le> sint (tv_nsec ts2)"
    unfolding timespec_le_def by blast
  then have "millis_exact ts1 \<le> millis_exact ts2"
  proof cases
    case earlier
    then show ?thesis
      using b1 b2 by (simp add: millis_exact_def)
  next
    case same
    have "sint (tv_nsec ts1) div 1000000 \<le> sint (tv_nsec ts2) div 1000000"
      using same(2) by (rule zdiv_mono1) simp
    then show ?thesis
      by (simp add: millis_exact_def same(1) nsec_ms_eq [OF assms(3)] nsec_ms_eq [OF assms(4)])
  qed
  then show ?thesis
    by (simp only: t1 t2)
qed

text \<open>
  An instance across a second boundary.
\<close>

theorem current_time_ms_monotone_witness:
  "timespec_le \<lparr>tv_sec = 1700000000, tv_nsec = 999999999\<rparr> \<lparr>tv_sec = 1700000001, tv_nsec = 0\<rparr>
   \<and> sint (fst (current_time_ms posix_clock_gettime \<lparr>tv_sec = 0, tv_nsec = 0\<rparr>
        \<lparr>realtime = Running \<lparr>tv_sec = 1700000000, tv_nsec = 999999999\<rparr>,
         monotonic = Unavailable 22, errno = 0\<rparr>))
     \<le> sint (fst (current_time_ms posix_clock_gettime \<lparr>tv_sec = 0, tv_nsec = 0\<rparr>
        \<lparr>realtime = Running \<lparr>tv_sec = 1700000001, tv_nsec = 0\<rparr>,
         monotonic = Unavailable 22, errno = 0\<rparr>))"
proof -
  let ?a = "\<lparr>tv_sec = 1700000000, tv_nsec = 999999999\<rparr>"
  let ?b = "\<lparr>tv_sec = 1700000001, tv_nsec = 0\<rparr>"
  let ?wa = "\<lparr>realtime = Running ?a, monotonic = Unavailable 22, errno = 0\<rparr>"
  let ?wb = "\<lparr>realtime = Running ?b, monotonic = Unavailable 22, errno = 0\<rparr>"
  have ha: "posix_clock_gettime CLOCK_REALTIME \<lparr>tv_sec = 0, tv_nsec = 0\<rparr> ?wa = ((0, ?a), ?wa)"
    by (simp add: posix_clock_gettime_def)
  have hb: "posix_clock_gettime CLOCK_REALTIME \<lparr>tv_sec = 0, tv_nsec = 0\<rparr> ?wb = ((0, ?b), ?wb)"
    by (simp add: posix_clock_gettime_def)
  have va: "valid_nsec ?a" and vb: "valid_nsec ?b"
    by (simp_all add: valid_nsec_def)
  have ra: "sec_in_range ?a" and rb: "sec_in_range ?b"
    by (simp_all add: sec_in_range_def)
  have le: "timespec_le ?a ?b"
    by (simp add: timespec_le_def)
  show ?thesis
    using current_time_ms_monotone [where clock_gettime = posix_clock_gettime,
        OF ha hb va vb ra rb le] le
    by simp
qed

text \<open>
  C7 as written has no bound on the seconds. From \<open>sec = 9223372036854775\<close> to
  \<open>sec = 9223372036854776\<close> the clock goes forward and the timestamp goes from
  \<open>9223372036854775000\<close> to a negative value.
\<close>

theorem current_time_ms_monotone_counterexample:
  "valid_nsec \<lparr>tv_sec = 9223372036854775, tv_nsec = 0\<rparr>
   \<and> valid_nsec \<lparr>tv_sec = 9223372036854776, tv_nsec = 0\<rparr>
   \<and> timespec_le \<lparr>tv_sec = 9223372036854775, tv_nsec = 0\<rparr>
        \<lparr>tv_sec = 9223372036854776, tv_nsec = 0\<rparr>
   \<and> sint (fst (current_time_ms posix_clock_gettime \<lparr>tv_sec = 0, tv_nsec = 0\<rparr>
        \<lparr>realtime = Running \<lparr>tv_sec = 9223372036854775, tv_nsec = 0\<rparr>,
         monotonic = Unavailable 22, errno = 0\<rparr>)) = 9223372036854775000
   \<and> sint (fst (current_time_ms posix_clock_gettime \<lparr>tv_sec = 0, tv_nsec = 0\<rparr>
        \<lparr>realtime = Running \<lparr>tv_sec = 9223372036854776, tv_nsec = 0\<rparr>,
         monotonic = Unavailable 22, errno = 0\<rparr>)) = - 9223372036854775616"
  by (simp add: valid_nsec_def timespec_le_def current_time_ms_def posix_clock_gettime_def
      div_long_def)

subsection \<open>Effects, termination, determinism\<close>

text \<open>
  C8, as amended. The function has no side effect of its own: the state after a call is
  the state that the clock read leaves. On the POSIX clock a successful read leaves every
  part of the state unchanged, and a failing read changes \<open>errno\<close> and nothing else.
\<close>

theorem current_time_ms_frame:
  "snd (current_time_ms clock_gettime ts0 w) = snd (clock_gettime CLOCK_REALTIME ts0 w)
   \<and> (realtime pw = Running ts \<longrightarrow>
        snd (current_time_ms posix_clock_gettime ts0 pw) = pw)
   \<and> (realtime pw = Unavailable e \<longrightarrow>
        snd (current_time_ms posix_clock_gettime ts0 pw) = pw\<lparr>errno := e\<rparr>)"
  by (simp add: current_time_ms_def posix_clock_gettime_def split: prod.split)

text \<open>
  An instance of each case: a running clock, and an unavailable one.
\<close>

theorem current_time_ms_frame_witness:
  "snd (current_time_ms posix_clock_gettime \<lparr>tv_sec = 0, tv_nsec = 0\<rparr>
        \<lparr>realtime = Running \<lparr>tv_sec = 1700000000, tv_nsec = 500000000\<rparr>,
         monotonic = Unavailable 22, errno = 5\<rparr>)
     = \<lparr>realtime = Running \<lparr>tv_sec = 1700000000, tv_nsec = 500000000\<rparr>,
         monotonic = Unavailable 22, errno = 5\<rparr>
   \<and> snd (current_time_ms posix_clock_gettime \<lparr>tv_sec = 0, tv_nsec = 0\<rparr>
        \<lparr>realtime = Unavailable 22, monotonic = Unavailable 22, errno = 5\<rparr>)
     = \<lparr>realtime = Unavailable 22, monotonic = Unavailable 22, errno = 22\<rparr>"
proof -
  let ?ts = "\<lparr>tv_sec = 1700000000, tv_nsec = 500000000\<rparr>"
  let ?ok = "\<lparr>realtime = Running ?ts, monotonic = Unavailable 22, errno = 5\<rparr>"
  let ?bad = "\<lparr>realtime = Unavailable 22, monotonic = Unavailable 22, errno = 5\<rparr>"
  have r: "realtime ?ok = Running ?ts"
    by simp
  have u: "realtime ?bad = Unavailable 22"
    by simp
  show ?thesis
    using current_time_ms_frame [where clock_gettime = posix_clock_gettime and pw = ?ok
        and ts = ?ts and ?ts0.0 = "\<lparr>tv_sec = 0, tv_nsec = 0\<rparr>" and w = ?ok]
      current_time_ms_frame [where clock_gettime = posix_clock_gettime and pw = ?bad
        and e = 22 and ?ts0.0 = "\<lparr>tv_sec = 0, tv_nsec = 0\<rparr>" and w = ?bad]
      r u
    by (simp add: posix_clock_gettime_def)
qed

text \<open>
  C8 as written has every part of the state unchanged by every call. With the realtime
  clock unavailable, \<open>errno\<close> is 0 before the call and 22 after it.
\<close>

theorem current_time_ms_frame_counterexample:
  "errno (snd (current_time_ms posix_clock_gettime \<lparr>tv_sec = 0, tv_nsec = 0\<rparr>
        \<lparr>realtime = Unavailable 22, monotonic = Unavailable 22, errno = 0\<rparr>)) = 22
   \<and> snd (current_time_ms posix_clock_gettime \<lparr>tv_sec = 0, tv_nsec = 0\<rparr>
        \<lparr>realtime = Unavailable 22, monotonic = Unavailable 22, errno = 0\<rparr>)
     \<noteq> \<lparr>realtime = Unavailable 22, monotonic = Unavailable 22, errno = 0\<rparr>"
  by (simp add: current_time_ms_def posix_clock_gettime_def)



text \<open>
  C10. The function is deterministic given the clock reading: two invocations whose
  clock reads leave the same \<open>(seconds, nanoseconds)\<close> pair return the same timestamp,
  whatever the primitive, the return codes, the states and the previous contents of the
  buffer.
\<close>

theorem current_time_ms_deterministic:
  assumes "cg1 CLOCK_REALTIME ts0 w1 = ((rc1, ts), w1')"
    and "cg2 CLOCK_REALTIME ts0' w2 = ((rc2, ts), w2')"
  shows "fst (current_time_ms cg1 ts0 w1) = fst (current_time_ms cg2 ts0' w2)"
  using assms by (simp add: current_time_ms_def)

text \<open>
  An instance: a running clock, and a failing one that leaves the same pair in the
  buffer.
\<close>

theorem current_time_ms_deterministic_witness:
  "fst (current_time_ms posix_clock_gettime \<lparr>tv_sec = 0, tv_nsec = 0\<rparr>
        \<lparr>realtime = Running \<lparr>tv_sec = 12, tv_nsec = 345678901\<rparr>,
         monotonic = Unavailable 22, errno = 0\<rparr>)
   = fst (current_time_ms posix_clock_gettime \<lparr>tv_sec = 12, tv_nsec = 345678901\<rparr>
        \<lparr>realtime = Unavailable 1, monotonic = Running \<lparr>tv_sec = 5, tv_nsec = 6\<rparr>, errno = 9\<rparr>)"
proof -
  let ?ts = "\<lparr>tv_sec = 12, tv_nsec = 345678901\<rparr>"
  let ?w1 = "\<lparr>realtime = Running ?ts, monotonic = Unavailable 22, errno = 0\<rparr>"
  let ?w2 = "\<lparr>realtime = Unavailable 1, monotonic = Running \<lparr>tv_sec = 5, tv_nsec = 6\<rparr>, errno = 9\<rparr>"
  have h1: "posix_clock_gettime CLOCK_REALTIME \<lparr>tv_sec = 0, tv_nsec = 0\<rparr> ?w1 = ((0, ?ts), ?w1)"
    by (simp add: posix_clock_gettime_def)
  have h2: "posix_clock_gettime CLOCK_REALTIME ?ts ?w2 = ((- 1, ?ts), ?w2\<lparr>errno := 1\<rparr>)"
    by (simp add: posix_clock_gettime_def)
  show ?thesis
    using current_time_ms_deterministic [where ?cg1.0 = posix_clock_gettime
        and ?cg2.0 = posix_clock_gettime, OF h1 h2] .
qed

end
